theory Spec2Isabelle
  imports Main "HOL-Library.Sublist"
begin

section \<open>Strings\<close>

text \<open>
  The recognizers of \<^verbatim>\<open>scripts/parsers\<close> work on JavaScript strings. A document is
  modelled as a \<open>string\<close>: an ASCII character is one \<open>char\<close>, and a character beyond
  ASCII is the sequence of its UTF-8 bytes, each a \<open>char\<close> above 127. The character
  classes the code uses are the ASCII ones (\<^verbatim>\<open>\w\<close>, \<^verbatim>\<open>\d\<close>, \<^verbatim>\<open>[a-z]\<close>, ...) and are
  exact. Whitespace (\<^verbatim>\<open>\s\<close> and \<^verbatim>\<open>trim\<close>) is tab, line feed, vertical tab, form feed,
  carriage return and space; the line terminators that \<^verbatim>\<open>.\<close> refuses are line feed and
  carriage return. What lies beyond ASCII is kept as it is: it is neither whitespace nor
  a word character, \<^verbatim>\<open>toLowerCase\<close> leaves it alone, and \<open>length\<close> counts its bytes.
\<close>

definition code :: "char \<Rightarrow> nat" where
  "code c = of_char c"

definition LF :: char where
  "LF = CHR 0x0A"

definition CR :: char where
  "CR = CHR 0x0D"

definition DQ :: char where
  "DQ = CHR 0x22"

definition isSpace :: "char \<Rightarrow> bool" where
  "isSpace c = (code c \<in> {9, 10, 11, 12, 13, 32})"

definition isDigit :: "char \<Rightarrow> bool" where
  "isDigit c = (48 \<le> code c \<and> code c \<le> 57)"

definition isLower :: "char \<Rightarrow> bool" where
  "isLower c = (97 \<le> code c \<and> code c \<le> 122)"

definition isUpper :: "char \<Rightarrow> bool" where
  "isUpper c = (65 \<le> code c \<and> code c \<le> 90)"

definition isWord :: "char \<Rightarrow> bool" where
  "isWord c = (isLower c \<or> isUpper c \<or> isDigit c \<or> c = CHR ''_'')"

text \<open>The class of \<^verbatim>\<open>.\<close>: every character but a line terminator.\<close>

definition isDot :: "char \<Rightarrow> bool" where
  "isDot c = (c \<noteq> LF \<and> c \<noteq> CR)"

definition trim :: "string \<Rightarrow> string" where
  "trim s = rev (dropWhile isSpace (rev (dropWhile isSpace s)))"

definition startsWith :: "string \<Rightarrow> string \<Rightarrow> bool" where
  "startsWith s p = prefix p s"

definition endsWith :: "string \<Rightarrow> string \<Rightarrow> bool" where
  "endsWith s p = suffix p s"

fun includesStr :: "string \<Rightarrow> string \<Rightarrow> bool" where
  "includesStr [] p = (p = [])"
| "includesStr (c # s) p = (prefix p (c # s) \<or> includesStr s p)"

text \<open>\<^verbatim>\<open>s.indexOf(p)\<close>, with \<open>None\<close> for \<^verbatim>\<open>-1\<close>.\<close>

fun indexOf :: "string \<Rightarrow> string \<Rightarrow> nat option" where
  "indexOf [] p = (if p = [] then Some 0 else None)"
| "indexOf (c # s) p =
     (if prefix p (c # s) then Some 0 else map_option Suc (indexOf s p))"

text \<open>\<^verbatim>\<open>s.split(sep)\<close> for a one-character separator: never empty, \<open>['''']\<close> on \<open>''''\<close>.\<close>

fun split :: "string \<Rightarrow> char \<Rightarrow> string list" where
  "split [] sep = [[]]"
| "split (c # s) sep =
     (if c = sep then [] # split s sep
      else (case split s sep of [] \<Rightarrow> [[c]] | l # ls \<Rightarrow> (c # l) # ls))"

fun join :: "string \<Rightarrow> string list \<Rightarrow> string" where
  "join sep [] = []"
| "join sep [x] = x"
| "join sep (x # y # ys) = x @ sep @ join sep (y # ys)"

text \<open>\<^verbatim>\<open>content.replaceAll('\r\n', '\n')\<close>.\<close>

fun normalizeNewlines :: "string \<Rightarrow> string" where
  "normalizeNewlines [] = []"
| "normalizeNewlines [c] = [c]"
| "normalizeNewlines (c # d # s) =
     (if c = CR \<and> d = LF then LF # normalizeNewlines s else c # normalizeNewlines (d # s))"

definition toLower :: "char \<Rightarrow> char" where
  "toLower c = (if isUpper c then char_of (code c + 32) else c)"

definition toLowerCase :: "string \<Rightarrow> string" where
  "toLowerCase s = map toLower s"

text \<open>\<^verbatim>\<open>String(n)\<close> for a non-negative integer: its decimal digits.\<close>

fun digitsOf :: "nat \<Rightarrow> nat \<Rightarrow> string" where
  "digitsOf 0 n = []"
| "digitsOf (Suc fuel) n =
     (if n < 10 then [char_of (48 + n)]
      else digitsOf fuel (n div 10) @ [char_of (48 + n mod 10)])"

definition String :: "nat \<Rightarrow> string" where
  "String n = digitsOf (Suc n) n"

section \<open>Regular expressions\<close>

text \<open>
  The patterns of the source are regular expression literals. They are written here as
  lists of items, read left to right, and run by a backtracking matcher that tries the
  choices in the order the JavaScript engine does: a greedy repetition from the longest
  run down, a lazy one from the shortest up, the alternatives of a group from the first
  to the last. Every repetition in the source is over a one-character class, which is
  what \<open>Rep\<close> offers. \<open>Open\<close> and \<open>Close i\<close> delimit capture group \<open>i\<close>; an optional
  group \<^verbatim>\<open>(?:g)?\<close> is \<open>Alt [g, []]\<close>; \<open>Ahead\<close> is a lookahead and \<open>Eos\<close> is \<^verbatim>\<open>$\<close>.
\<close>

datatype item =
    Lit string
  | Rep "char \<Rightarrow> bool" nat "nat option" bool
  | Open
  | Close nat
  | Alt "item list list"
  | Ahead "item list"
  | Eos

type_synonym caps = "nat \<Rightarrow> string option"

fun firstSome :: "('a \<Rightarrow> 'b option) \<Rightarrow> 'a list \<Rightarrow> 'b option" where
  "firstSome f [] = None"
| "firstSome f (x # xs) = (case f x of Some y \<Rightarrow> Some y | None \<Rightarrow> firstSome f xs)"

lemma firstSome_cong [fundef_cong]:
  "xs = ys \<Longrightarrow> (\<And>x. x \<in> set ys \<Longrightarrow> f x = g x) \<Longrightarrow> firstSome f xs = firstSome g ys"
  by (induction ys arbitrary: xs) (auto split: option.splits)

text \<open>The longest run a repetition may take at the head of \<open>s\<close>.\<close>

definition maxRep :: "(char \<Rightarrow> bool) \<Rightarrow> nat option \<Rightarrow> string \<Rightarrow> nat" where
  "maxRep c hi s =
     (let n = length (takeWhile c s) in case hi of None \<Rightarrow> n | Some h \<Rightarrow> min h n)"

text \<open>The repetition counts to try, in order.\<close>

definition counts :: "bool \<Rightarrow> nat \<Rightarrow> nat \<Rightarrow> nat list" where
  "counts greedy lo n = (if greedy then rev [lo..<Suc n] else [lo..<Suc n])"

lemma size_list_member: "a \<in> set as \<Longrightarrow> size_list f a \<le> size_list (size_list f) as"
  by (induction as) auto

text \<open>
  \<open>matchAt r s op cs\<close> matches the items \<open>r\<close> at the head of \<open>s\<close>; \<open>op\<close> is the input
  as it stood at the last \<open>Open\<close> and \<open>cs\<close> the groups captured so far. The result is the
  input left after the match, with the captures.
\<close>

function matchAt :: "item list \<Rightarrow> string \<Rightarrow> string \<Rightarrow> caps \<Rightarrow> (string \<times> caps) option" where
  "matchAt [] s op cs = Some (s, cs)"
| "matchAt (Lit l # r) s op cs =
     (if prefix l s then matchAt r (drop (length l) s) op cs else None)"
| "matchAt (Rep c lo hi greedy # r) s op cs =
     firstSome (\<lambda>k. matchAt r (drop k s) op cs) (counts greedy lo (maxRep c hi s))"
| "matchAt (Open # r) s op cs = matchAt r s s cs"
| "matchAt (Close i # r) s op cs =
     matchAt r s op (cs(i := Some (take (length op - length s) op)))"
| "matchAt (Alt as # r) s op cs = firstSome (\<lambda>a. matchAt (a @ r) s op cs) as"
| "matchAt (Ahead g # r) s op cs =
     (case matchAt g s op cs of None \<Rightarrow> None | Some _ \<Rightarrow> matchAt r s op cs)"
| "matchAt (Eos # r) s op cs = (if s = [] then matchAt r s op cs else None)"
  by pat_completeness auto

termination
  apply (relation "measure (\<lambda>(r, s, op, cs). size_list size r)")
         apply (auto simp: size_list_append)
  apply (drule size_list_member [where f = size])
  apply simp
  done

declare matchAt.simps [simp del]

text \<open>
  \<open>execStart\<close> runs a pattern that begins with \<^verbatim>\<open>^\<close>: it can match at index 0 only.
  \<open>execSearch\<close> runs a pattern without anchor: the leftmost match wins.
\<close>

definition execStart :: "item list \<Rightarrow> string \<Rightarrow> caps option" where
  "execStart r s = map_option snd (matchAt r s s (\<lambda>_. None))"

fun execSearch :: "item list \<Rightarrow> string \<Rightarrow> caps option" where
  "execSearch r [] = execStart r []"
| "execSearch r (c # s) =
     (case execStart r (c # s) of Some cs \<Rightarrow> Some cs | None \<Rightarrow> execSearch r s)"

definition test :: "caps option \<Rightarrow> bool" where
  "test m = (m \<noteq> None)"

text \<open>
  \<^verbatim>\<open>s.replaceAll(/r/g, repl)\<close> for a replacement without group references. A match
  that consumes nothing leaves the character in place, as the engine's step past an
  empty match does.
\<close>

function replaceAllRx :: "item list \<Rightarrow> string \<Rightarrow> string \<Rightarrow> string" where
  "replaceAllRx r repl [] = (case matchAt r [] [] (\<lambda>_. None) of None \<Rightarrow> [] | Some _ \<Rightarrow> repl)"
| "replaceAllRx r repl (c # s) =
     (case matchAt r (c # s) (c # s) (\<lambda>_. None) of
        None \<Rightarrow> c # replaceAllRx r repl s
      | Some (rest, _) \<Rightarrow>
          if length rest < length (c # s) then repl @ replaceAllRx r repl rest
          else repl @ c # replaceAllRx r repl s)"
  by pat_completeness auto

termination
  by (relation "measure (\<lambda>(r, repl, s). length s)") auto

declare replaceAllRx.simps [simp del]


text \<open>A loop that pushes onto a result list: \<open>fold\<close> over the indices it visits.\<close>

definition pushEach :: "('i \<Rightarrow> 'a list) \<Rightarrow> 'i list \<Rightarrow> 'a list" where
  "pushEach body is = fold (\<lambda>i acc. acc @ body i) is []"

section \<open>The chunk model\<close>

text \<open>\<^verbatim>\<open>DocSourceSchema\<close>, \<^verbatim>\<open>DocTypeSchema\<close> and \<^verbatim>\<open>DocChunkSchema\<close> of the schemas.\<close>

datatype DocSource = UnrealPython | UnrealConsole | PyqtReference | PyqtTutorials

datatype DocType =
    ClassT | MethodT | PropertyT | EnumT | FunctionT | ConsoleVariableT | ConsoleCommandT
  | ApiEndpointT | GuideT | ConceptT | ExampleT

fun docSourceStr :: "DocSource \<Rightarrow> string" where
  "docSourceStr UnrealPython = ''unreal-python''"
| "docSourceStr UnrealConsole = ''unreal-console''"
| "docSourceStr PyqtReference = ''pyqt-reference''"
| "docSourceStr PyqtTutorials = ''pyqt-tutorials''"

fun docTypeStr :: "DocType \<Rightarrow> string" where
  "docTypeStr ClassT = ''class''"
| "docTypeStr MethodT = ''method''"
| "docTypeStr PropertyT = ''property''"
| "docTypeStr EnumT = ''enum''"
| "docTypeStr FunctionT = ''function''"
| "docTypeStr ConsoleVariableT = ''console-variable''"
| "docTypeStr ConsoleCommandT = ''console-command''"
| "docTypeStr ApiEndpointT = ''api-endpoint''"
| "docTypeStr GuideT = ''guide''"
| "docTypeStr ConceptT = ''concept''"
| "docTypeStr ExampleT = ''example''"

definition DOC_SOURCES :: "string list" where
  "DOC_SOURCES = [''unreal-python'', ''unreal-console'', ''pyqt-reference'', ''pyqt-tutorials'']"

definition DOC_TYPES :: "string list" where
  "DOC_TYPES = [''class'', ''method'', ''property'', ''enum'', ''function'',
     ''console-variable'', ''console-command'', ''api-endpoint'', ''guide'', ''concept'',
     ''example'']"

lemma docSourceStr_closed: "docSourceStr source \<in> set DOC_SOURCES"
  by (cases source) (simp_all add: DOC_SOURCES_def)

lemma docTypeStr_closed: "docTypeStr t \<in> set DOC_TYPES"
  by (cases t) (simp_all add: DOC_TYPES_def)

record DocChunk =
  d_id :: string
  d_source :: DocSource
  d_version :: "string option"
  d_type :: DocType
  d_name :: string
  d_parentName :: "string option"
  d_content :: string
  d_signature :: "string option"





section \<open>The stub-file recognizer (\<^verbatim>\<open>unreal-python.ts\<close>)\<close>

record ClassInfo =
  c_name :: string
  c_parent :: "string option"
  c_docstring :: string
  c_cppSource :: string
  c_isEnum :: bool
  c_lineNumber :: nat
  c_endLine :: nat

record MethodInfo =
  m_name :: string
  m_className :: string
  m_signature :: string
  m_docstring :: string
  m_isClassMethod :: bool
  m_isStatic :: bool

record PropertyInfo =
  p_name :: string
  p_className :: string
  p_type :: string
  p_docstring :: string
  p_readonly :: bool

record EnumValue =
  v_name :: string
  v_description :: string

text \<open>Line indices are natural numbers, so the test \<^verbatim>\<open>index < 0\<close> never fires.\<close>

definition getLine :: "string list \<Rightarrow> nat \<Rightarrow> string option" where
  "getLine lines index = (if index < length lines then Some (lines ! index) else None)"

definition tripleQuote :: string where
  "tripleQuote = [DQ, DQ, DQ]"

definition rawTripleQuote :: string where
  "rawTripleQuote = CHR ''r'' # tripleQuote"

text \<open>The loop of \<^verbatim>\<open>extractDocstring\<close> over the lines after the opening one.\<close>

function docstringLoop :: "string list \<Rightarrow> nat \<Rightarrow> string list \<Rightarrow> nat \<Rightarrow> string list \<times> nat" where
  "docstringLoop lines i docLines endIndex =
     (if i < length lines then
        (case getLine lines i of
           None \<Rightarrow> (docLines, endIndex)
         | Some currentLine \<Rightarrow>
             (case indexOf currentLine tripleQuote of
                Some closeIndex \<Rightarrow> (docLines @ [take closeIndex currentLine], i)
              | None \<Rightarrow> docstringLoop lines (i + 1) (docLines @ [currentLine]) i))
      else (docLines, endIndex))"
  by pat_completeness auto

termination
  by (relation "measure (\<lambda>(lines, i, docLines, endIndex). length lines - i)") auto

declare docstringLoop.simps [simp del]

definition extractDocstring :: "string list \<Rightarrow> nat \<Rightarrow> string \<times> nat" where
  "extractDocstring lines startIndex =
     (case getLine lines startIndex of
        None \<Rightarrow> ([], startIndex)
      | Some line \<Rightarrow>
          (let trimmed = trim line in
           if \<not> startsWith trimmed rawTripleQuote \<and> \<not> startsWith trimmed tripleQuote
           then ([], startIndex)
           else
             (let isRaw = startsWith trimmed rawTripleQuote;
                  startMarker = (if isRaw then rawTripleQuote else tripleQuote)
              in if endsWith trimmed tripleQuote \<and> length trimmed > length startMarker + 3
                 then (trim (take (length trimmed - 3 - length startMarker)
                               (drop (length startMarker) trimmed)), startIndex)
                 else
                   (case docstringLoop lines (startIndex + 1)
                           [drop (length startMarker) trimmed] startIndex of
                      (docLines, endIndex) \<Rightarrow> (trim (join [LF] docLines), endIndex)))))"

text \<open>\<^verbatim>\<open>/\*\*Plugin\*\*:\s*(\S+)/\<close> and its two siblings.\<close>

definition labelRx :: "string \<Rightarrow> item list" where
  "labelRx label =
     [Lit (''**'' @ label @ ''**:''), Rep isSpace 0 None True,
      Open, Rep (\<lambda>c. \<not> isSpace c) 1 None True, Close 1]"

definition labelPart :: "string \<Rightarrow> string \<Rightarrow> string list" where
  "labelPart label docstring =
     (case execSearch (labelRx label) docstring of
        None \<Rightarrow> []
      | Some m \<Rightarrow> (case m 1 of None \<Rightarrow> [] | Some g \<Rightarrow> [label @ '': '' @ g]))"

definition extractCppSource :: "string \<Rightarrow> string" where
  "extractCppSource docstring =
     join '', '' (labelPart ''Plugin'' docstring @ labelPart ''Module'' docstring
                  @ labelPart ''File'' docstring)"

text \<open>
  \<^verbatim>\<open>/^\s+([A-Z_][A-Z0-9_]*)\s*:\s*\w+\s*=\s*\.\.\.\s*#:\s*(?:\d+:\s*)?(.+)$/\<close>
\<close>

definition enumRx :: "item list" where
  "enumRx =
     [Rep isSpace 1 None True,
      Open, Rep (\<lambda>c. isUpper c \<or> c = CHR ''_'') 1 (Some 1) True,
      Rep (\<lambda>c. isUpper c \<or> isDigit c \<or> c = CHR ''_'') 0 None True, Close 1,
      Rep isSpace 0 None True, Lit '':'', Rep isSpace 0 None True, Rep isWord 1 None True,
      Rep isSpace 0 None True, Lit ''='', Rep isSpace 0 None True, Lit ''...'',
      Rep isSpace 0 None True, Lit ''#:'', Rep isSpace 0 None True,
      Alt [[Rep isDigit 1 None True, Lit '':'', Rep isSpace 0 None True], []],
      Open, Rep isDot 1 None True, Close 2, Eos]"

definition enumValueAt :: "string list \<Rightarrow> nat \<Rightarrow> EnumValue list" where
  "enumValueAt lines i =
     (case getLine lines i of
        None \<Rightarrow> []
      | Some line \<Rightarrow>
          (case execStart enumRx line of
             None \<Rightarrow> []
           | Some m \<Rightarrow>
               (case (m 1, m 2) of
                  (Some g1, Some g2) \<Rightarrow> [\<lparr>v_name = g1, v_description = trim g2\<rparr>]
                | _ \<Rightarrow> [])))"

definition extractEnumValues :: "string list \<Rightarrow> nat \<Rightarrow> nat \<Rightarrow> EnumValue list" where
  "extractEnumValues lines startLine endLine =
     pushEach (enumValueAt lines) [startLine..<min endLine (length lines)]"

text \<open>\<^verbatim>\<open>/^class\s+\w+/\<close>\<close>

definition classEndRx :: "item list" where
  "classEndRx = [Lit ''class'', Rep isSpace 1 None True, Rep isWord 1 None True]"

definition isClassStart :: "string list \<Rightarrow> nat \<Rightarrow> bool" where
  "isClassStart lines i =
     (case getLine lines i of None \<Rightarrow> False | Some line \<Rightarrow> test (execStart classEndRx line))"

definition findClassEnd :: "string list \<Rightarrow> nat \<Rightarrow> nat" where
  "findClassEnd lines startLine =
     (case find (isClassStart lines) [startLine + 1..<length lines] of
        Some i \<Rightarrow> i
      | None \<Rightarrow> length lines)"

text \<open>\<^verbatim>\<open>/^class\s+(\w+)(?:\(([^)]*)\))?:/\<close>\<close>

definition classRx :: "item list" where
  "classRx =
     [Lit ''class'', Rep isSpace 1 None True, Open, Rep isWord 1 None True, Close 1,
      Alt [[Lit ''('', Open, Rep (\<lambda>c. c \<noteq> CHR '')'') 0 None True, Close 2, Lit '')''], []],
      Lit '':'']"

definition startsDocstring :: "string \<Rightarrow> bool" where
  "startsDocstring l = (startsWith (trim l) rawTripleQuote \<or> startsWith (trim l) tripleQuote)"

text \<open>The docstring read at \<open>index\<close> when the line there opens one, as the three callers do.\<close>

definition docstringAt :: "string list \<Rightarrow> nat \<Rightarrow> string" where
  "docstringAt lines index =
     (case getLine lines index of
        None \<Rightarrow> []
      | Some nextLine \<Rightarrow>
          if startsDocstring nextLine then fst (extractDocstring lines index) else [])"

text \<open>\<^verbatim>\<open>classMatch[2]?.split(',')[0]?.trim() ?? null\<close>\<close>

definition firstParent :: "string option \<Rightarrow> string option" where
  "firstParent g2 =
     (case g2 of
        None \<Rightarrow> None
      | Some g \<Rightarrow> (case split g CHR '','' of [] \<Rightarrow> None | x # _ \<Rightarrow> Some (trim x)))"

text \<open>One iteration of the loop of \<^verbatim>\<open>parseClasses\<close>.\<close>

definition classAt :: "string list \<Rightarrow> nat \<Rightarrow> ClassInfo list" where
  "classAt lines i =
     (case getLine lines i of
        None \<Rightarrow> []
      | Some line \<Rightarrow>
          (case execStart classRx line of
             None \<Rightarrow> []
           | Some classMatch \<Rightarrow>
               (let parentClass = firstParent (classMatch 2)
                in case classMatch 1 of
                     None \<Rightarrow> []
                   | Some className \<Rightarrow>
                       (let isEnum = (parentClass = Some ''EnumBase'');
                            endLine = findClassEnd lines i;
                            docstring = docstringAt lines (i + 1)
                        in [\<lparr>c_name = className, c_parent = parentClass,
                              c_docstring = docstring, c_cppSource = extractCppSource docstring,
                              c_isEnum = isEnum, c_lineNumber = i, c_endLine = endLine\<rparr>]))))"

definition parseClasses :: "string list \<Rightarrow> ClassInfo list" where
  "parseClasses lines = pushEach (classAt lines) [0..<length lines]"


text \<open>
  \<^verbatim>\<open>/^[ ]{4}def\s+([a-z_][a-z0-9_]*)\s*\(([^)]*)\)\s*(?:->\s*([^:]+))?:/\<close>
\<close>

definition methodRx :: "item list" where
  "methodRx =
     [Rep (\<lambda>c. c = CHR '' '') 4 (Some 4) True, Lit ''def'', Rep isSpace 1 None True,
      Open, Rep (\<lambda>c. isLower c \<or> c = CHR ''_'') 1 (Some 1) True,
      Rep (\<lambda>c. isLower c \<or> isDigit c \<or> c = CHR ''_'') 0 None True, Close 1,
      Rep isSpace 0 None True, Lit ''('', Open, Rep (\<lambda>c. c \<noteq> CHR '')'') 0 None True, Close 2,
      Lit '')'', Rep isSpace 0 None True,
      Alt [[Lit ''->'', Rep isSpace 0 None True,
            Open, Rep (\<lambda>c. c \<noteq> CHR '':'') 1 None True, Close 3], []],
      Lit '':'']"

definition processMethodLine ::
  "string \<Rightarrow> ClassInfo \<Rightarrow> string list \<Rightarrow> nat \<Rightarrow> bool \<Rightarrow> bool \<Rightarrow> MethodInfo option" where
  "processMethodLine line classInfo lines lineIndex isClassMethod isStatic =
     (case execStart methodRx line of
        None \<Rightarrow> None
      | Some methodMatch \<Rightarrow>
          (let params = (case methodMatch 2 of None \<Rightarrow> [] | Some g \<Rightarrow> g);
               returnType = (case methodMatch 3 of None \<Rightarrow> ''None'' | Some g \<Rightarrow> trim g)
           in case methodMatch 1 of
                None \<Rightarrow> None
              | Some methodName \<Rightarrow>
                  if startsWith methodName ''_''
                     \<and> methodName \<notin> set [''__init__'', ''__enter__'', ''__exit__'']
                  then None
                  else
                    (let docstring = docstringAt lines (lineIndex + 1);
                         signature = methodName @ ''('' @ params @ '') -> '' @ returnType
                     in Some \<lparr>m_name = methodName, m_className = c_name classInfo,
                               m_signature = signature, m_docstring = docstring,
                               m_isClassMethod = isClassMethod, m_isStatic = isStatic\<rparr>)))"

text \<open>
  One iteration of the loop of \<^verbatim>\<open>parseMethods\<close>, on the methods found so far and the
  two decorator flags.
\<close>

definition methodStep ::
  "string list \<Rightarrow> ClassInfo \<Rightarrow> nat \<Rightarrow> MethodInfo list \<times> bool \<times> bool
     \<Rightarrow> MethodInfo list \<times> bool \<times> bool" where
  "methodStep lines classInfo i st =
     (case st of (methods, isClassMethod, isStatic) \<Rightarrow>
        (case getLine lines i of
           None \<Rightarrow> st
         | Some line \<Rightarrow>
             if trim line = ''@classmethod'' then (methods, True, isStatic)
             else if trim line = ''@staticmethod'' then (methods, isClassMethod, True)
             else
               (case processMethodLine line classInfo lines i isClassMethod isStatic of
                  Some method \<Rightarrow> (methods @ [method], False, False)
                | None \<Rightarrow> (methods, False, False))))"

definition parseMethods :: "string list \<Rightarrow> ClassInfo \<Rightarrow> MethodInfo list" where
  "parseMethods lines classInfo =
     fst (fold (methodStep lines classInfo)
            [c_lineNumber classInfo..<min (c_endLine classInfo) (length lines)]
            ([], False, False))"

definition checkHasSetter :: "string list \<Rightarrow> nat \<Rightarrow> nat \<Rightarrow> string \<Rightarrow> bool" where
  "checkHasSetter lines startIndex endIndex propName =
     list_ex (\<lambda>j. case getLine lines j of
                     None \<Rightarrow> False
                   | Some checkLine \<Rightarrow> includesStr checkLine (''@'' @ propName @ ''.setter''))
       [startIndex..<endIndex]"

text \<open>\<^verbatim>\<open>/^[ ]{4}def\s+([a-z_][a-z0-9_]*)\s*\(self\)\s*->\s*([^:]+):/\<close>\<close>

definition propRx :: "item list" where
  "propRx =
     [Rep (\<lambda>c. c = CHR '' '') 4 (Some 4) True, Lit ''def'', Rep isSpace 1 None True,
      Open, Rep (\<lambda>c. isLower c \<or> c = CHR ''_'') 1 (Some 1) True,
      Rep (\<lambda>c. isLower c \<or> isDigit c \<or> c = CHR ''_'') 0 None True, Close 1,
      Rep isSpace 0 None True, Lit ''(self)'', Rep isSpace 0 None True, Lit ''->'',
      Rep isSpace 0 None True, Open, Rep (\<lambda>c. c \<noteq> CHR '':'') 1 None True, Close 2,
      Lit '':'']"

text \<open>One iteration of the loop of \<^verbatim>\<open>parseProperties\<close>.\<close>

definition propertyAt :: "string list \<Rightarrow> ClassInfo \<Rightarrow> nat \<Rightarrow> PropertyInfo list" where
  "propertyAt lines classInfo i =
     (case getLine lines i of
        None \<Rightarrow> []
      | Some line \<Rightarrow>
          if trim line \<noteq> ''@property'' then []
          else
            (case getLine lines (i + 1) of
               None \<Rightarrow> []
             | Some propLine \<Rightarrow>
                 (case execStart propRx propLine of
                    None \<Rightarrow> []
                  | Some propMatch \<Rightarrow>
                      (let propType = (case propMatch 2 of None \<Rightarrow> ''Any'' | Some g \<Rightarrow> trim g)
                       in case propMatch 1 of
                            None \<Rightarrow> []
                          | Some propName \<Rightarrow>
                              (let docstring = docstringAt lines (i + 2);
                                   readonly = (\<not> checkHasSetter lines (i + 1)
                                                  (min (i + 20) (c_endLine classInfo)) propName)
                               in [\<lparr>p_name = propName, p_className = c_name classInfo,
                                     p_type = propType, p_docstring = docstring,
                                     p_readonly = readonly\<rparr>])))))"

definition parseProperties :: "string list \<Rightarrow> ClassInfo \<Rightarrow> PropertyInfo list" where
  "parseProperties lines classInfo =
     pushEach (propertyAt lines classInfo)
       [c_lineNumber classInfo..<min (c_endLine classInfo) (length lines)]"

text \<open>\<^verbatim>\<open>/\*\*C\+\+ Source:\*\*[\s\S]*?(?=\n\n|\*\*|$)/g\<close>\<close>

definition cppSectionRx :: "item list" where
  "cppSectionRx =
     [Lit ''**C++ Source:**'', Rep (\<lambda>c. True) 0 None False,
      Ahead [Alt [[Lit [LF, LF]], [Lit ''**''], [Eos]]]]"

definition SOURCE_NAME :: string where
  "SOURCE_NAME = ''unreal-python''"

text \<open>The list \<^verbatim>\<open>contentParts\<close> that \<^verbatim>\<open>createClassChunk\<close> builds and joins.\<close>

definition classContentParts :: "ClassInfo \<Rightarrow> string list \<Rightarrow> string list" where
  "classContentParts classInfo lines =
     (let cleanDoc = trim (replaceAllRx cppSectionRx [] (c_docstring classInfo)) in
      [''# '' @ c_name classInfo]
      @ (case c_parent classInfo of None \<Rightarrow> [] | Some p \<Rightarrow> [''Inherits from: '' @ p])
      @ (if c_cppSource classInfo \<noteq> [] then [''C++ Source: '' @ c_cppSource classInfo] else [])
      @ [[]]
      @ (if cleanDoc \<noteq> [] then [cleanDoc] else [])
      @ (if c_isEnum classInfo then
           (let enumValues = extractEnumValues lines (c_lineNumber classInfo) (c_endLine classInfo)
            in if length enumValues > 0 then
                 [[], ''Values:'']
                 @ map (\<lambda>val. ''  '' @ v_name val @ '': '' @ v_description val) enumValues
               else [])
         else []))"

definition createClassChunk :: "ClassInfo \<Rightarrow> string list \<Rightarrow> DocChunk" where
  "createClassChunk classInfo lines =
     (let chunkType = (if c_isEnum classInfo then EnumT else ClassT) in
      \<lparr>d_id = SOURCE_NAME @ '':'' @ (if c_isEnum classInfo then ''enum'' else ''class'')
                @ '':'' @ c_name classInfo,
       d_source = UnrealPython, d_version = None, d_type = chunkType,
       d_name = c_name classInfo, d_parentName = None,
       d_content = join [LF] (classContentParts classInfo lines), d_signature = None\<rparr>)"

definition methodContentParts :: "MethodInfo \<Rightarrow> string list" where
  "methodContentParts method =
     [''# '' @ m_className method @ ''.'' @ m_name method, [],
      ''Signature: '' @ m_signature method]
     @ (if m_isClassMethod method then [''Type: classmethod'']
        else if m_isStatic method then [''Type: staticmethod''] else [])
     @ (if m_docstring method \<noteq> [] then [[], m_docstring method] else [])"

definition createMethodChunk :: "MethodInfo \<Rightarrow> DocChunk" where
  "createMethodChunk method =
     \<lparr>d_id = SOURCE_NAME @ '':method:'' @ m_className method @ ''.'' @ m_name method,
      d_source = UnrealPython, d_version = None, d_type = MethodT,
      d_name = m_name method, d_parentName = Some (m_className method),
      d_content = join [LF] (methodContentParts method),
      d_signature = Some (m_signature method)\<rparr>"

definition createPropertyChunk :: "PropertyInfo \<Rightarrow> DocChunk" where
  "createPropertyChunk prop =
     (let rwStatus = (if p_readonly prop then ''[Read-Only]'' else ''[Read-Write]'') in
      \<lparr>d_id = SOURCE_NAME @ '':property:'' @ p_className prop @ ''.'' @ p_name prop,
       d_source = UnrealPython, d_version = None, d_type = PropertyT,
       d_name = p_name prop, d_parentName = Some (p_className prop),
       d_content = join [LF]
         ([''# '' @ p_className prop @ ''.'' @ p_name prop, [],
           ''Type: '' @ p_type prop @ '' '' @ rwStatus]
          @ (if p_docstring prop \<noteq> [] then [[], p_docstring prop] else [])),
       d_signature = None\<rparr>)"

text \<open>
  The body of the loop of \<^verbatim>\<open>parseUnrealPython\<close> over the classes: the chunks one class
  adds. The four counters of the loop only feed the statistics line written to the
  standard output, which is left out.
\<close>

definition classChunks :: "string list \<Rightarrow> string option \<Rightarrow> ClassInfo \<Rightarrow> DocChunk list" where
  "classChunks lines version classInfo =
     (if startsWith (c_name classInfo) ''_'' then []
      else
        [(createClassChunk classInfo lines)\<lparr>d_version := version\<rparr>]
        @ (if c_isEnum classInfo then []
           else
             map (\<lambda>method. (createMethodChunk method)\<lparr>d_version := version\<rparr>)
               (parseMethods lines classInfo)
             @ map (\<lambda>prop. (createPropertyChunk prop)\<lparr>d_version := version\<rparr>)
                 (parseProperties lines classInfo)))"

text \<open>\<^verbatim>\<open>parseUnrealPython\<close> from the text of the file on.\<close>

definition stubLines :: "string \<Rightarrow> string list" where
  "stubLines content = split (normalizeNewlines content) LF"

definition parseUnrealPythonText :: "string \<Rightarrow> string option \<Rightarrow> DocChunk list" where
  "parseUnrealPythonText content version =
     (let lines = stubLines content; classes = parseClasses lines
      in pushEach (classChunks lines version) classes)"



section \<open>The markdown recognizer (\<^verbatim>\<open>markdown.ts\<close>)\<close>

record Section =
  s_title :: string
  s_level :: nat
  s_content :: string
  s_type :: DocType

text \<open>\<^verbatim>\<open>Partial<Section>\<close>, of which the loop fills the title and the level.\<close>

record PartialSection =
  ps_title :: "string option"
  ps_level :: "nat option"

text \<open>\<^verbatim>\<open>/^(get|post|put|delete|patch)\s+\//\<close> and \<^verbatim>\<open>/^class\s+\w+/\<close>\<close>

definition verbRx :: "item list" where
  "verbRx =
     [Open, Alt [[Lit ''get''], [Lit ''post''], [Lit ''put''], [Lit ''delete''], [Lit ''patch'']],
      Close 1, Rep isSpace 1 None True, Lit ''/'']"

definition classWordRx :: "item list" where
  "classWordRx = [Lit ''class'', Rep isSpace 1 None True, Rep isWord 1 None True]"

definition detectDocType :: "string \<Rightarrow> string \<Rightarrow> DocType" where
  "detectDocType title content =
     (let lowerTitle = toLowerCase title; lowerContent = toLowerCase content in
      if includesStr lowerTitle ''endpoint'' \<or> test (execStart verbRx lowerContent)
      then ApiEndpointT
      else if includesStr lowerTitle ''example'' \<or> includesStr lowerTitle ''usage''
      then ExampleT
      else if includesStr lowerTitle ''class'' \<or> test (execStart classWordRx content)
      then ClassT
      else if includesStr lowerTitle ''function'' \<or> includesStr lowerTitle ''method''
      then FunctionT
      else GuideT)"

definition saveSection ::
  "Section list \<Rightarrow> PartialSection option \<Rightarrow> string list \<Rightarrow> Section list" where
  "saveSection sections currentSection contentLines =
     (case currentSection of
        None \<Rightarrow> sections
      | Some cur \<Rightarrow>
          (case ps_title cur of
             None \<Rightarrow> sections
           | Some title \<Rightarrow>
               if length contentLines = 0 then sections
               else
                 (let sectionContent = trim (join [LF] contentLines) in
                  if length sectionContent \<le> 50 then sections
                  else sections @
                    [\<lparr>s_title = title,
                      s_level = (case ps_level cur of None \<Rightarrow> 1 | Some l \<Rightarrow> l),
                      s_content = sectionContent,
                      s_type = detectDocType title sectionContent\<rparr>])))"

text \<open>\<^verbatim>\<open>/^(#{1,4})\s+(.+)$/\<close>\<close>

definition headingRx :: "item list" where
  "headingRx =
     [Open, Rep (\<lambda>c. c = CHR ''#'') 1 (Some 4) True, Close 1, Rep isSpace 1 None True,
      Open, Rep isDot 1 None True, Close 2, Eos]"

text \<open>
  One iteration of the loop of \<^verbatim>\<open>parseMarkdownSections\<close>, on the sections saved so
  far, the open section and the lines of its body.
\<close>

definition sectionStep ::
  "string \<Rightarrow> Section list \<times> PartialSection option \<times> string list
     \<Rightarrow> Section list \<times> PartialSection option \<times> string list" where
  "sectionStep line st =
     (case st of (sections, currentSection, contentLines) \<Rightarrow>
        (case execStart headingRx line of
           Some headerMatch \<Rightarrow>
             (saveSection sections currentSection contentLines,
              Some \<lparr>ps_title = Some (case headerMatch 2 of None \<Rightarrow> [] | Some g \<Rightarrow> trim g),
                    ps_level = Some (case headerMatch 1 of None \<Rightarrow> 1 | Some g \<Rightarrow> length g)\<rparr>,
              [])
         | None \<Rightarrow> (sections, currentSection, contentLines @ [line])))"

definition sectionsOfLines :: "string list \<Rightarrow> Section list" where
  "sectionsOfLines lines =
     (case fold sectionStep lines ([], None, []) of
        (sections, currentSection, contentLines) \<Rightarrow>
          saveSection sections currentSection contentLines)"

definition parseMarkdownSections :: "string \<Rightarrow> Section list" where
  "parseMarkdownSections content = sectionsOfLines (split content LF)"

text \<open>
  \<^verbatim>\<open>.replaceAll(/^-|-$/g, '')\<close>: the scan removes a hyphen at index 0, and then a
  hyphen that ends the text if one is left there.
\<close>

definition stripEdgeHyphens :: "string \<Rightarrow> string" where
  "stripEdgeHyphens s =
     (let s1 = (if startsWith s ''-'' then drop 1 s else s)
      in if endsWith s1 ''-'' then butlast s1 else s1)"

definition sanitizeName :: "string \<Rightarrow> string" where
  "sanitizeName name =
     take 64 (stripEdgeHyphens
       (replaceAllRx [Rep (\<lambda>c. \<not> (isLower c \<or> isDigit c)) 1 None True] ''-''
          (toLowerCase name)))"

definition sectionChunk :: "DocSource \<Rightarrow> string option \<Rightarrow> nat \<times> Section \<Rightarrow> DocChunk" where
  "sectionChunk source version p =
     (case p of (index, section) \<Rightarrow>
        (let safeName = sanitizeName (s_title section);
             chunkContent = join [LF] [''# '' @ s_title section, [], s_content section]
         in \<lparr>d_id = docSourceStr source @ '':'' @ docTypeStr (s_type section) @ '':''
                      @ safeName @ ''-'' @ String index,
              d_source = source, d_version = version, d_type = s_type section,
              d_name = s_title section, d_parentName = None,
              d_content = chunkContent, d_signature = None\<rparr>))"

text \<open>\<^verbatim>\<open>parseMarkdownDocs\<close> from the text of the file on.\<close>

definition parseMarkdownDocsText :: "string \<Rightarrow> DocSource \<Rightarrow> string option \<Rightarrow> DocChunk list" where
  "parseMarkdownDocsText content source version =
     map (sectionChunk source version) (enumerate 0 (parseMarkdownSections content))"


section \<open>The command-list recognizer (\<^verbatim>\<open>unreal-console.ts\<close>)\<close>

datatype ConsoleType = CONSOLE_VARIABLE | CONSOLE_COMMAND

fun consoleTypeStr :: "ConsoleType \<Rightarrow> string" where
  "consoleTypeStr CONSOLE_VARIABLE = ''console-variable''"
| "consoleTypeStr CONSOLE_COMMAND = ''console-command''"

fun consoleDocType :: "ConsoleType \<Rightarrow> DocType" where
  "consoleDocType CONSOLE_VARIABLE = ConsoleVariableT"
| "consoleDocType CONSOLE_COMMAND = ConsoleCommandT"

record ConsoleEntry =
  e_name :: string
  e_type :: ConsoleType
  e_description :: string

record PartialEntry =
  pe_name :: "string option"
  pe_type :: "ConsoleType option"

definition saveEntry ::
  "ConsoleEntry list \<Rightarrow> PartialEntry option \<Rightarrow> string list \<Rightarrow> ConsoleEntry list" where
  "saveEntry entries currentEntry descriptionLines =
     (case currentEntry of
        None \<Rightarrow> entries
      | Some cur \<Rightarrow>
          (case pe_name cur of
             None \<Rightarrow> entries
           | Some name \<Rightarrow>
               entries @
                 [\<lparr>e_name = name,
                   e_type = (case pe_type cur of None \<Rightarrow> CONSOLE_VARIABLE | Some t \<Rightarrow> t),
                   e_description = trim (join [LF] descriptionLines)\<rparr>]))"

text \<open>
  The heading pattern
  \<^verbatim>\<open>/^###\s+`([^`]+)`\s+<dash>\s+(Console Variable|Console Command)/\<close>.
  Its separator lies beyond ASCII; \<open>headerDash\<close> holds it as the bytes the source file
  has between the two \<^verbatim>\<open>\s+\<close>.
\<close>

definition headerDash :: string where
  "headerDash = [CHR 0xC3, CHR 0xA2, CHR 0xE2, CHR 0x82, CHR 0xAC, CHR 0xE2, CHR 0x80, CHR 0x9D]"

definition headerRx :: "item list" where
  "headerRx =
     [Lit ''###'', Rep isSpace 1 None True, Lit [CHR 0x60], Open,
      Rep (\<lambda>c. c \<noteq> CHR 0x60) 1 None True, Close 1, Lit [CHR 0x60], Rep isSpace 1 None True,
      Lit headerDash, Rep isSpace 1 None True,
      Open, Alt [[Lit ''Console Variable''], [Lit ''Console Command'']], Close 2]"

text \<open>
  One iteration of the loop of \<^verbatim>\<open>parseConsoleMarkdown\<close>, on the entries saved so far,
  the open entry and its description lines.
\<close>

definition entryStep ::
  "string \<Rightarrow> ConsoleEntry list \<times> PartialEntry option \<times> string list
     \<Rightarrow> ConsoleEntry list \<times> PartialEntry option \<times> string list" where
  "entryStep line st =
     (case st of (entries, currentEntry, descriptionLines) \<Rightarrow>
        (case execStart headerRx line of
           Some headerMatch \<Rightarrow>
             (saveEntry entries currentEntry descriptionLines,
              (case headerMatch 1 of
                 None \<Rightarrow> currentEntry
               | Some name \<Rightarrow>
                   Some \<lparr>pe_name = Some name,
                         pe_type = Some (if headerMatch 2 = Some ''Console Command''
                                         then CONSOLE_COMMAND else CONSOLE_VARIABLE)\<rparr>),
              [])
         | None \<Rightarrow>
             if currentEntry \<noteq> None \<and> trim line \<noteq> [] \<and> \<not> startsWith line ''#''
             then (entries, currentEntry, descriptionLines @ [trim line])
             else st))"

definition entriesOfLines :: "string list \<Rightarrow> ConsoleEntry list" where
  "entriesOfLines lines =
     (case fold entryStep lines ([], None, []) of
        (entries, currentEntry, descriptionLines) \<Rightarrow>
          saveEntry entries currentEntry descriptionLines)"

definition parseConsoleMarkdown :: "string \<Rightarrow> ConsoleEntry list" where
  "parseConsoleMarkdown content = entriesOfLines (split content LF)"

definition entryChunk :: "string option \<Rightarrow> ConsoleEntry \<Rightarrow> DocChunk" where
  "entryChunk version entry =
     (let typeLabel = (if e_type entry = CONSOLE_COMMAND then ''Console Command''
                       else ''Console Variable'');
          chunkContent = join [LF] [''# '' @ e_name entry, ''Type: '' @ typeLabel, [],
                                    e_description entry]
      in \<lparr>d_id = ''unreal-console:'' @ consoleTypeStr (e_type entry) @ '':'' @ e_name entry,
           d_source = UnrealConsole, d_version = version,
           d_type = consoleDocType (e_type entry), d_name = e_name entry,
           d_parentName = None, d_content = chunkContent, d_signature = None\<rparr>)"

text \<open>\<^verbatim>\<open>parseUnrealConsole\<close> from the text of the file on.\<close>

definition parseUnrealConsoleText :: "string \<Rightarrow> string option \<Rightarrow> DocChunk list" where
  "parseUnrealConsoleText content version = map (entryChunk version) (parseConsoleMarkdown content)"



section \<open>Notions used in the statements\<close>















text \<open>The number that a string of decimal digits writes: the inverse of \<open>String\<close>.\<close>

definition decimalValue :: "string \<Rightarrow> nat" where
  "decimalValue s = foldl (\<lambda>a c. 10 * a + (code c - 48)) 0 s"

text \<open>
  The qualified name of a chunk: its name, behind the name of its parent and a dot when
  it has one.
\<close>

definition qualifiedName :: "DocChunk \<Rightarrow> string" where
  "qualifiedName ch =
     (case d_parentName ch of None \<Rightarrow> d_name ch | Some p \<Rightarrow> p @ ''.'' @ d_name ch)"

section \<open>Properties\<close>

subsection \<open>Loops that push\<close>

lemma fold_push: "fold (\<lambda>i acc. acc @ body i) is acc0 = acc0 @ concat (map body is)"
  by (induction "is" arbitrary: acc0) auto

lemma pushEach_concat: "pushEach body is = concat (map body is)"
  by (simp add: pushEach_def fold_push)

subsection \<open>The matcher\<close>













subsection \<open>Class chunks\<close>

lemma classAt_cppSource:
  "c \<in> set (classAt lines i) \<Longrightarrow> c_cppSource c = extractCppSource (c_docstring c)"
  by (auto simp: classAt_def Let_def split: option.splits)

lemma parseClasses_cppSource:
  "c \<in> set (parseClasses lines) \<Longrightarrow> c_cppSource c = extractCppSource (c_docstring c)"
  by (auto simp: parseClasses_def pushEach_concat dest: classAt_cppSource)

lemma extractCppSource_empty: "extractCppSource [] = []"
  by code_simp

lemma cleanDoc_empty: "trim (replaceAllRx cppSectionRx [] []) = []"
  by code_simp

lemma classChunk_member:
  "c \<in> set (parseClasses (stubLines content)) \<Longrightarrow> \<not> startsWith (c_name c) ''_'' \<Longrightarrow>
   (createClassChunk c (stubLines content))\<lparr>d_version := version\<rparr>
     \<in> set (parseUnrealPythonText content version)"
  by (auto simp: parseUnrealPythonText_def Let_def pushEach_concat classChunks_def)

text \<open>
  Claim C3, as amended. Every class declaration that \<open>parseClasses\<close> recognizes and whose
  name does not begin with an underscore has its class or enum chunk in the output, with
  or without a docstring. The content is the joined list of parts, which holds the line
  \<^verbatim>\<open>Inherits from: <parent>\<close> whenever a parent list was declared; for a class without
  docstring the parts are the header, that line and the empty line only.
\<close>

theorem public_class_chunk_emitted:
  assumes "c \<in> set (parseClasses (stubLines content))"
    and "\<not> startsWith (c_name c) ''_''"
  shows "(createClassChunk c (stubLines content))\<lparr>d_version := version\<rparr>
           \<in> set (parseUnrealPythonText content version)
         \<and> d_type (createClassChunk c (stubLines content)) = (if c_isEnum c then EnumT else ClassT)
         \<and> d_name (createClassChunk c (stubLines content)) = c_name c
         \<and> d_content (createClassChunk c (stubLines content))
             = join [LF] (classContentParts c (stubLines content))
         \<and> (\<forall>p. c_parent c = Some p \<longrightarrow>
               ''Inherits from: '' @ p \<in> set (classContentParts c (stubLines content)))
         \<and> (c_docstring c = [] \<and> \<not> c_isEnum c \<longrightarrow>
               classContentParts c (stubLines content)
                 = [''# '' @ c_name c]
                   @ (case c_parent c of None \<Rightarrow> [] | Some p \<Rightarrow> [''Inherits from: '' @ p])
                   @ [[]])"
proof -
  have cpp: "c_docstring c = [] \<Longrightarrow> c_cppSource c = []"
    using parseClasses_cppSource [OF assms(1)] by (simp add: extractCppSource_empty)
  show ?thesis
    using classChunk_member [OF assms] cpp
    by (auto simp: createClassChunk_def classContentParts_def Let_def cleanDoc_empty)
qed

theorem public_class_chunk_emitted_witness:
  "d_content (createClassChunk
      \<lparr>c_name = ''Foo'', c_parent = Some ''Base'', c_docstring = [], c_cppSource = [],
        c_isEnum = False, c_lineNumber = 0, c_endLine = 1\<rparr> (stubLines ''class Foo(Base):''))
     = ''# Foo'' @ [LF] @ ''Inherits from: Base'' @ [LF]
   \<and> (createClassChunk
        \<lparr>c_name = ''Foo'', c_parent = Some ''Base'', c_docstring = [], c_cppSource = [],
          c_isEnum = False, c_lineNumber = 0, c_endLine = 1\<rparr>
        (stubLines ''class Foo(Base):''))\<lparr>d_version := None\<rparr>
           \<in> set (parseUnrealPythonText ''class Foo(Base):'' None)"
proof -
  let ?c = "\<lparr>c_name = ''Foo'', c_parent = Some ''Base'', c_docstring = [], c_cppSource = [],
             c_isEnum = False, c_lineNumber = 0, c_endLine = 1\<rparr>"
  have h1: "?c \<in> set (parseClasses (stubLines ''class Foo(Base):''))"
    by code_simp
  have h2: "\<not> startsWith (c_name ?c) ''_''"
    by code_simp
  show ?thesis
    using public_class_chunk_emitted [OF h1 h2, of None]
    by (simp add: LF_def)
qed

text \<open>
  The claim as stated fails: the declaration \<^verbatim>\<open>class _Foo(Base):\<close> is recognized, and
  the guard on names that begin with an underscore drops its chunk.
\<close>

theorem private_class_dropped:
  "parseClasses (stubLines ''class _Foo(Base):'')
     = [\<lparr>c_name = ''_Foo'', c_parent = Some ''Base'', c_docstring = [], c_cppSource = [],
          c_isEnum = False, c_lineNumber = 0, c_endLine = 1\<rparr>]
   \<and> parseUnrealPythonText ''class _Foo(Base):'' None = []"
  by code_simp

subsection \<open>Markdown sections\<close>

















subsection \<open>Command-list entries\<close>












subsection \<open>Method decorators\<close>




















subsection \<open>Class spans and enums\<close>




lemma findClassEnd_gt: "i < length lines \<Longrightarrow> i < findClassEnd lines i"
  by (auto simp: findClassEnd_def split: option.splits dest!: find_Some_iff [THEN iffD1])













lemma parseUnrealPythonText_concat:
  "parseUnrealPythonText content version
     = concat (map (classChunks (stubLines content) version) (parseClasses (stubLines content)))"
  by (simp add: parseUnrealPythonText_def Let_def pushEach_concat)



lemma classChunks_cases:
  assumes "ch \<in> set (classChunks lines version c')"
  shows "(ch = (createClassChunk c' lines)\<lparr>d_version := version\<rparr>)
         \<or> (\<not> c_isEnum c' \<and> (\<exists>m \<in> set (parseMethods lines c').
               ch = (createMethodChunk m)\<lparr>d_version := version\<rparr>))
         \<or> (\<not> c_isEnum c' \<and> (\<exists>p \<in> set (parseProperties lines c').
               ch = (createPropertyChunk p)\<lparr>d_version := version\<rparr>))"
  using assms by (auto simp: classChunks_def split: if_splits)




subsection \<open>Totality and bounds\<close>





















subsection \<open>Chunk ids\<close>

lemma decimalValue_snoc: "decimalValue (s @ [c]) = 10 * decimalValue s + (code c - 48)"
  by (simp add: decimalValue_def)

lemma code_char_of: "n < 256 \<Longrightarrow> code (char_of n) = n"
  by (simp add: code_def)

lemma digitsOf_value: "n < fuel \<Longrightarrow> decimalValue (digitsOf fuel n) = n"
proof (induction fuel arbitrary: n)
  case 0
  then show ?case by simp
next
  case (Suc fuel)
  show ?case
  proof (cases "n < 10")
    case True
    then show ?thesis by (simp add: decimalValue_def code_char_of)
  next
    case False
    then have "n div 10 < fuel" using Suc.prems by simp
    then have "decimalValue (digitsOf fuel (n div 10)) = n div 10" by (rule Suc.IH)
    moreover have "code (char_of (48 + n mod 10)) = 48 + n mod 10"
      by (rule code_char_of) simp
    ultimately show ?thesis using False by (simp add: decimalValue_snoc)
  qed
qed

lemma String_value: "decimalValue (String n) = n"
  unfolding String_def by (rule digitsOf_value) simp

lemma String_inj: "String i = String j \<Longrightarrow> i = j"
  by (metis String_value)

lemma digitsOf_digits: "c \<in> set (digitsOf fuel n) \<Longrightarrow> isDigit c"
proof (induction fuel arbitrary: n)
  case 0
  then show ?case by simp
next
  case (Suc fuel)
  have "code (char_of (48 + n mod 10)) = 48 + n mod 10" by (rule code_char_of) simp
  moreover have "n < 10 \<Longrightarrow> code (char_of (48 + n)) = 48 + n" by (rule code_char_of) simp
  ultimately show ?case
    using Suc by (auto simp: isDigit_def split: if_splits)
qed

lemma String_no_hyphen: "CHR ''-'' \<notin> set (String i)"
proof
  assume "CHR ''-'' \<in> set (String i)"
  then have "isDigit CHR ''-''" unfolding String_def by (rule digitsOf_digits)
  then show False by (simp add: isDigit_def code_def)
qed

lemma last_segment:
  assumes "a @ [x] @ d1 = b @ [x] @ d2" and "x \<notin> set d1" and "x \<notin> set d2"
  shows "d1 = d2"
proof -
  have "rev (a @ [x] @ d1) = rev (b @ [x] @ d2)" using assms(1) by simp
  then have "rev d1 @ x # rev a = rev d2 @ x # rev b" by simp
  then have "takeWhile (\<lambda>c. c \<noteq> x) (rev d1 @ x # rev a)
               = takeWhile (\<lambda>c. c \<noteq> x) (rev d2 @ x # rev b)" by simp
  moreover have "takeWhile (\<lambda>c. c \<noteq> x) (rev d1 @ x # rev a) = rev d1"
    using assms(2) by (auto simp: takeWhile_tail)
  moreover have "takeWhile (\<lambda>c. c \<noteq> x) (rev d2 @ x # rev b) = rev d2"
    using assms(3) by (auto simp: takeWhile_tail)
  ultimately show ?thesis by simp
qed

lemma distinct_map_finer:
  assumes "distinct (map f xs)" and "\<And>x y. g x = g y \<Longrightarrow> f x = f y"
  shows "distinct (map g xs)"
  using assms(1)
proof (induction xs)
  case Nil
  then show ?case by simp
next
  case (Cons x xs)
  have "g x \<notin> g ` set xs"
  proof
    assume "g x \<in> g ` set xs"
    then obtain y where y: "y \<in> set xs" "g x = g y" by auto
    then have "f x = f y" using assms(2) by blast
    then show False using Cons.prems y(1) by auto
  qed
  moreover have "distinct (map g xs)" using Cons by simp
  ultimately show ?case by simp
qed

lemma sectionChunk_id:
  "d_id (sectionChunk source version (i, s))
     = (docSourceStr source @ '':'' @ docTypeStr (s_type s) @ '':'' @ sanitizeName (s_title s))
       @ [CHR ''-''] @ String i"
  by (simp add: sectionChunk_def Let_def)

lemma sectionChunk_id_index:
  assumes "d_id (sectionChunk source version p) = d_id (sectionChunk source version q)"
  shows "fst p = fst q"
proof -
  obtain i s j t where pq: "p = (i, s)" "q = (j, t)" by (cases p, cases q) auto
  have "String i = String j"
    using assms unfolding pq sectionChunk_id
    by (rule last_segment) (rule String_no_hyphen)+
  then show ?thesis using pq by (simp add: String_inj)
qed

lemma markdown_ids_distinct:
  "distinct (map d_id (parseMarkdownDocsText content source version))"
proof -
  have "distinct (map fst (enumerate 0 (parseMarkdownSections content)))"
    by (simp add: map_fst_enumerate)
  then have "distinct (map (\<lambda>p. d_id (sectionChunk source version p))
                        (enumerate 0 (parseMarkdownSections content)))"
    by (rule distinct_map_finer) (rule sectionChunk_id_index)
  then show ?thesis by (simp add: parseMarkdownDocsText_def comp_def)
qed

lemma distinct_map_finer_on:
  assumes "distinct (map f xs)"
    and "\<And>x y. x \<in> set xs \<Longrightarrow> y \<in> set xs \<Longrightarrow> g x = g y \<Longrightarrow> f x = f y"
  shows "distinct (map g xs)"
  using assms
proof (induction xs)
  case Nil
  then show ?case by simp
next
  case (Cons x xs)
  have "g x \<notin> g ` set xs"
  proof
    assume "g x \<in> g ` set xs"
    then obtain y where y: "y \<in> set xs" "g x = g y" by auto
    then have "f x = f y" using Cons.prems(2) [of x y] by simp
    then show False using Cons.prems(1) y(1) by auto
  qed
  moreover have "distinct (map g xs)" using Cons by simp
  ultimately show ?case by simp
qed

lemma docTypeStr_no_colon: "CHR '':'' \<notin> set (docTypeStr t)"
  by (cases t) simp_all

lemma docTypeStr_inj: "docTypeStr t1 = docTypeStr t2 \<Longrightarrow> t1 = t2"
  by (cases t1; cases t2) simp_all

lemma typed_name_inj:
  assumes "docTypeStr t1 @ '':'' @ q1 = docTypeStr t2 @ '':'' @ q2"
  shows "t1 = t2 \<and> q1 = q2"
proof -
  have "takeWhile (\<lambda>c. c \<noteq> CHR '':'') (docTypeStr t1 @ CHR '':'' # q1)
          = takeWhile (\<lambda>c. c \<noteq> CHR '':'') (docTypeStr t2 @ CHR '':'' # q2)"
    using assms by simp
  moreover have "takeWhile (\<lambda>c. c \<noteq> CHR '':'') (docTypeStr t @ CHR '':'' # q) = docTypeStr t"
    for t q using docTypeStr_no_colon [of t] by (auto simp: takeWhile_tail)
  ultimately have "docTypeStr t1 = docTypeStr t2" by simp
  then have t: "t1 = t2" by (rule docTypeStr_inj)
  then show ?thesis using assms by simp
qed

lemma stub_chunk_id:
  assumes "ch \<in> set (parseUnrealPythonText content version)"
  shows "d_id ch = ''unreal-python:'' @ docTypeStr (d_type ch) @ '':'' @ qualifiedName ch"
proof -
  from assms obtain c where "ch \<in> set (classChunks (stubLines content) version c)"
    by (auto simp: parseUnrealPythonText_concat)
  from classChunks_cases [OF this] show ?thesis
    by (auto simp: createClassChunk_def createMethodChunk_def createPropertyChunk_def
          qualifiedName_def SOURCE_NAME_def Let_def)
qed

lemma console_chunk_id:
  "d_id (entryChunk version e)
     = ''unreal-console:'' @ docTypeStr (d_type (entryChunk version e)) @ '':''
       @ d_name (entryChunk version e)"
  by (cases "e_type e") (simp_all add: entryChunk_def Let_def)

lemma stub_ids_distinct_iff:
  "distinct (map d_id (parseUnrealPythonText content version))
     \<longleftrightarrow> distinct (map (\<lambda>ch. (d_type ch, qualifiedName ch))
                      (parseUnrealPythonText content version))"
proof
  assume "distinct (map d_id (parseUnrealPythonText content version))"
  then show "distinct (map (\<lambda>ch. (d_type ch, qualifiedName ch))
                        (parseUnrealPythonText content version))"
    by (rule distinct_map_finer_on) (simp add: stub_chunk_id)
next
  assume "distinct (map (\<lambda>ch. (d_type ch, qualifiedName ch))
                     (parseUnrealPythonText content version))"
  then show "distinct (map d_id (parseUnrealPythonText content version))"
  proof (rule distinct_map_finer_on)
    fix x y
    assume "x \<in> set (parseUnrealPythonText content version)"
      and "y \<in> set (parseUnrealPythonText content version)" and "d_id x = d_id y"
    then have "docTypeStr (d_type x) @ '':'' @ qualifiedName x
                 = docTypeStr (d_type y) @ '':'' @ qualifiedName y"
      by (simp add: stub_chunk_id)
    then show "(d_type x, qualifiedName x) = (d_type y, qualifiedName y)"
      using typed_name_inj by simp
  qed
qed

lemma console_ids_distinct_iff:
  "distinct (map d_id (parseUnrealConsoleText content version))
     \<longleftrightarrow> distinct (map (\<lambda>ch. (d_type ch, d_name ch))
                      (parseUnrealConsoleText content version))"
proof
  assume "distinct (map d_id (parseUnrealConsoleText content version))"
  then show "distinct (map (\<lambda>ch. (d_type ch, d_name ch))
                        (parseUnrealConsoleText content version))"
    by (rule distinct_map_finer_on) (auto simp: parseUnrealConsoleText_def console_chunk_id)
next
  assume "distinct (map (\<lambda>ch. (d_type ch, d_name ch))
                     (parseUnrealConsoleText content version))"
  then show "distinct (map d_id (parseUnrealConsoleText content version))"
  proof (rule distinct_map_finer_on)
    fix x y
    assume "x \<in> set (parseUnrealConsoleText content version)"
      and "y \<in> set (parseUnrealConsoleText content version)" and "d_id x = d_id y"
    then have "docTypeStr (d_type x) @ '':'' @ d_name x
                 = docTypeStr (d_type y) @ '':'' @ d_name y"
      by (auto simp: parseUnrealConsoleText_def console_chunk_id)
    then show "(d_type x, d_name x) = (d_type y, d_name y)"
      using typed_name_inj by simp
  qed
qed

text \<open>
  Claim C1, as amended. The ids that the markdown recognizer emits for a document are
  pairwise distinct, whatever the titles: each ends with the position of its section.
  The other two recognizers build the id from the source, the type and the qualified
  name alone, so their ids are pairwise distinct exactly when no two chunks of the
  document share both the type and the qualified name.
\<close>

theorem ids_distinct_unless_names_repeat:
  "distinct (map d_id (parseMarkdownDocsText content source version))
   \<and> (distinct (map d_id (parseUnrealConsoleText content version))
        \<longleftrightarrow> distinct (map (\<lambda>ch. (d_type ch, d_name ch))
                         (parseUnrealConsoleText content version)))
   \<and> (distinct (map d_id (parseUnrealPythonText content version))
        \<longleftrightarrow> distinct (map (\<lambda>ch. (d_type ch, qualifiedName ch))
                         (parseUnrealPythonText content version)))
   \<and> (\<forall>ch \<in> set (parseUnrealPythonText content version).
         d_id ch = ''unreal-python:'' @ docTypeStr (d_type ch) @ '':'' @ qualifiedName ch)
   \<and> (\<forall>ch \<in> set (parseUnrealConsoleText content version).
         d_id ch = ''unreal-console:'' @ docTypeStr (d_type ch) @ '':'' @ d_name ch)"
  using markdown_ids_distinct console_ids_distinct_iff stub_ids_distinct_iff stub_chunk_id
  by (auto simp: parseUnrealConsoleText_def console_chunk_id)

theorem ids_distinct_unless_names_repeat_witness:
  "distinct (map d_id (parseMarkdownDocsText
      (join [LF] [''# Same title'', ''The first body, which is long enough to be kept as a section.'',
                  ''# Same title'', ''The second body, which is long enough to be kept as well.''])
      PyqtReference None))
   \<and> distinct (map d_id (parseUnrealConsoleText
        (join [LF] [''### `r.Foo` '' @ headerDash @ '' Console Command'',
                    ''### `r.Foo` '' @ headerDash @ '' Console Variable'']) None))
   \<and> distinct (map d_id (parseUnrealPythonText
        (join [LF] [''class A:'', ''    def go(self) -> None:'', ''class B(EnumBase):'']) None))"
proof -
  let ?md = "join [LF] [''# Same title'', ''The first body, which is long enough to be kept as a section.'',
                  ''# Same title'', ''The second body, which is long enough to be kept as well.'']"
  let ?con = "join [LF] [''### `r.Foo` '' @ headerDash @ '' Console Command'',
                    ''### `r.Foo` '' @ headerDash @ '' Console Variable'']"
  let ?stub = "join [LF] [''class A:'', ''    def go(self) -> None:'', ''class B(EnumBase):'']"
  have h1: "distinct (map (\<lambda>ch. (d_type ch, d_name ch)) (parseUnrealConsoleText ?con None))"
    by code_simp
  have h2: "distinct (map (\<lambda>ch. (d_type ch, qualifiedName ch)) (parseUnrealPythonText ?stub None))"
    by code_simp
  show ?thesis
    using ids_distinct_unless_names_repeat [of ?md PyqtReference None]
      ids_distinct_unless_names_repeat [of ?con PyqtReference None]
      ids_distinct_unless_names_repeat [of ?stub PyqtReference None] h1 h2
    by blast
qed

text \<open>
  The claim as stated fails: a stub file that declares the class \<^verbatim>\<open>A\<close> twice gets the
  id \<^verbatim>\<open>unreal-python:class:A\<close> twice.
\<close>

theorem repeated_class_name_repeats_id:
  "map d_id (parseUnrealPythonText (join [LF] [''class A:'', ''class A:'']) None)
     = [''unreal-python:class:A'', ''unreal-python:class:A'']
   \<and> \<not> distinct (map d_id (parseUnrealPythonText (join [LF] [''class A:'', ''class A:'']) None))"
  by code_simp

subsection \<open>Failing inputs\<close>

text \<open>
  Claim C2 at a failing input. The \<^verbatim>\<open>def\<close> line under \<^verbatim>\<open>@property\<close> is taken by
  \<open>parseMethods\<close> and by \<open>parseProperties\<close>: the class yields a method chunk and a
  property chunk for the same declaration.
\<close>

theorem property_def_yields_two_chunks:
  "map (\<lambda>ch. (d_id ch, d_type ch, d_name ch))
     (parseUnrealPythonText
        (join [LF] [''class A:'', ''    @property'', ''    def foo(self) -> int:'']) None)
   = [(''unreal-python:class:A'', ClassT, ''A''),
      (''unreal-python:method:A.foo'', MethodT, ''foo''),
      (''unreal-python:property:A.foo'', PropertyT, ''foo'')]"
  by code_simp

text \<open>
  Claim C9 at a failing input. A heading made of \<^verbatim>\<open>#\<close> and two spaces matches the heading
  pattern with a title of one space, which \<^verbatim>\<open>trim\<close> empties: the chunk of the section
  has an empty name.
\<close>

theorem markdown_blank_title_chunk:
  "map (\<lambda>ch. (d_id ch, d_type ch, d_name ch, d_content ch))
     (parseMarkdownDocsText
        (join [LF] [''#  '', ''This body is longer than fifty characters, so it is kept.''])
        PyqtReference None)
   = [(''pyqt-reference:guide:-0'', GuideT, [],
       join [LF] [''# '', [], ''This body is longer than fifty characters, so it is kept.''])]"
  by code_simp

end
